theory Spec2Isabelle
  imports Complex_Main "HOL-Library.Multiset"
begin

section \<open>Python values, exceptions and process outcomes\<close>

text \<open>
  The two scripts are straight-line Python programs that print, call library functions and
  end in one of three ways: they return, they call \<open>exit(n)\<close>, or an exception escapes.
  A run is modelled as the list of observable events it produced, in order, together with
  its outcome. Everything the scripts obtain from outside (the file system, the operator's
  answer, the imported libraries) is a field of a record handed to the model.
\<close>

datatype exn =
    ImportError string
  | IsADirectoryError string
  | JSONDecodeError string
  | EOFError
  | KeyError string
  | TypeError
  | ZeroDivisionError
  | ValueError string
  | RuntimeError string
  | OSError string

text \<open>
  The values \<open>json.loads\<close> produces. Python floats are modelled by exact rationals, a
  dict by its items in order.
\<close>

datatype json =
    JNull
  | JBool bool
  | JInt int
  | JFloat rat
  | JStr string
  | JArr "json list"
  | JObj "(string \<times> json) list"

datatype 'a outcome = Returned 'a | Exited int | Raised exn

text \<open>The status the operating system sees: an uncaught exception ends Python with 1.\<close>

fun exit_status :: "'a outcome \<Rightarrow> int" where
  "exit_status (Returned _) = 0"
| "exit_status (Exited n) = n"
| "exit_status (Raised _) = 1"

subsection \<open>Strings\<close>

text \<open>
  Python strings are sequences of code points; the model keeps the code points below 256.
  \<open>str.isspace\<close> is true there for exactly the twelve code points listed.
\<close>

definition isspace :: "char \<Rightarrow> bool" where
  "isspace c = (let n = (of_char c :: nat) in
     (9 \<le> n \<and> n \<le> 13) \<or> (28 \<le> n \<and> n \<le> 32) \<or> n = 133 \<or> n = 160)"

definition strip :: "string \<Rightarrow> string" where
  "strip s = rev (dropWhile isspace (rev (dropWhile isspace s)))"

definition lower_char :: "char \<Rightarrow> char" where
  "lower_char c = (let n = (of_char c :: nat) in
     if (65 \<le> n \<and> n \<le> 90) \<or> (192 \<le> n \<and> n \<le> 222 \<and> n \<noteq> 215)
     then char_of (n + 32) else c)"

definition lower :: "string \<Rightarrow> string" where
  "lower s = map lower_char s"

subsection \<open>Subscripting and comparison\<close>

text \<open>\<open>d[key]\<close> with a string key: only a dict accepts it, and only for a key it holds.\<close>

fun getitem :: "json \<Rightarrow> string \<Rightarrow> exn + json" where
  "getitem (JObj kvs) k = (case map_of kvs k of None \<Rightarrow> Inl (KeyError k) | Some v \<Rightarrow> Inr v)"
| "getitem _ k = Inl TypeError"

text \<open>\<open>v == 1\<close>: Python compares numbers by value, and \<open>True\<close> is the number one.\<close>

fun eq_one :: "json \<Rightarrow> bool" where
  "eq_one (JInt i) = (i = 1)"
| "eq_one (JFloat q) = (q = 1)"
| "eq_one (JBool b) = b"
| "eq_one _ = False"

text \<open>\<open>a / b\<close> on two ints.\<close>

definition truediv :: "int \<Rightarrow> int \<Rightarrow> exn + rat" where
  "truediv a b = (if b = 0 then Inl ZeroDivisionError else Inr (of_int a / of_int b))"

section \<open>What the scripts print and call\<close>

text \<open>
  One constructor for each \<open>print\<close> statement, carrying the interpolated values: the
  messages of the fine-tuning script, then those of the converter.
\<close>

datatype message =
    MsgMissingDependencies | MsgPleaseInstall | MsgPipInstall | MsgImportError exn
  | MsgDataNotFound string | MsgGenerateFirst | MsgExportHint
  | MsgLowData nat | MsgRecommendation
  | MsgRule | MsgTitle
  | MsgDevice string | MsgGpuUnavailable
  | MsgLoadingBase string | MsgLoadingData string
  | MsgTotal nat | MsgPositive nat | MsgNegative int | MsgClassRatio rat
  | MsgPreparing | MsgTrainSamples nat | MsgValSamples nat
  | MsgDashes | MsgTraining | MsgEpochs int | MsgBatchSize int | MsgLearningRate rat
  | MsgStarting
  | MsgEvaluation | MsgFinalMetrics | MsgMetric string rat
  | MsgSaving | MsgSaved string | MsgNextSteps | MsgStep1 | MsgStep2 | MsgStep3

datatype conv_message =
    MsgConverterTitle | MsgConverterRule
  | MsgImportsOk | MsgMissingPackage exn | MsgConvPleaseInstall | MsgConvPipInstall
  | MsgConverting string | MsgOutputDirectory string
  | MsgLoadingOriginal | MsgModelLoaded
  | MsgConvertingToOnnx | MsgConversionSuccessful
  | MsgSavingOnnx | MsgSavedTo string
  | MsgTesting | MsgText string | MsgPrediction string real
  | MsgComplete | MsgConvNextSteps | MsgConvStep1 string | MsgConvStep2 string | MsgConvStep3
  | MsgConversionError exn

text \<open>The arguments \<open>main\<close> hands to \<open>TrainingArguments\<close>.\<close>

record training_config =
  output_dir :: string
  num_train_epochs :: int
  per_device_train_batch_size :: int
  per_device_eval_batch_size :: int
  cfg_learning_rate :: rat
  weight_decay :: rat
  eval_strategy :: string
  save_strategy :: string
  load_best_model_at_end :: bool
  metric_for_best_model :: string
  logging_dir :: string
  logging_steps :: nat
  save_total_limit :: nat
  report_to :: string
  use_cpu :: bool

text \<open>
  What a run does, in order: the lines it prints and the library calls it makes. A model
  load carries the number of labels asked for, if any; the split carries the validation
  fraction and the seed; the trainer carries the patience of its early-stopping callback.
\<close>

datatype event =
    Print message
  | ConvPrint conv_message
  | TokenizerFromPretrained string
  | ModelFromPretrained string "nat option"
  | OpenFile string
  | JsonLoads string
  | Input
  | TokenizerCall json
  | TrainTestSplit rat nat
  | MakeTrainingArguments training_config
  | MakeTrainer nat
  | Train
  | Evaluate
  | SaveModel string
  | SavePretrained string
  | Mkdir string
  | OrtFromPretrained string
  | OrtSavePretrained string
  | TokenizerText string
  | OnnxCall "nat list"
  | PrintTraceback exn

type_synonym 'a prog = "event list \<times> 'a outcome"

definition ret :: "'a \<Rightarrow> 'a prog" where
  "ret x = ([], Returned x)"

definition raise :: "exn \<Rightarrow> 'a prog" where
  "raise e = ([], Raised e)"

definition exit_with :: "int \<Rightarrow> 'a prog" where
  "exit_with n = ([], Exited n)"

definition prints :: "message \<Rightarrow> unit prog" where
  "prints m = ([Print m], Returned ())"

definition conv_prints :: "conv_message \<Rightarrow> unit prog" where
  "conv_prints m = ([ConvPrint m], Returned ())"

definition emit :: "event \<Rightarrow> unit prog" where
  "emit ev = ([ev], Returned ())"

text \<open>A library call: it is recorded, then it returns or raises.\<close>

definition call :: "event \<Rightarrow> exn + 'a \<Rightarrow> 'a prog" where
  "call ev r = ([ev], case r of Inl e \<Rightarrow> Raised e | Inr v \<Rightarrow> Returned v)"

definition attempt :: "event \<Rightarrow> exn option \<Rightarrow> unit prog" where
  "attempt ev r = ([ev], case r of Some e \<Rightarrow> Raised e | None \<Rightarrow> Returned ())"

text \<open>Sequencing: what follows runs only if what came before returned.\<close>

definition then_do :: "'a prog \<Rightarrow> ('a \<Rightarrow> 'b prog) \<Rightarrow> 'b prog" where
  "then_do p f = (case snd p of
       Returned x \<Rightarrow> (fst p @ fst (f x), snd (f x))
     | Exited n \<Rightarrow> (fst p, Exited n)
     | Raised e \<Rightarrow> (fst p, Raised e))"

definition seq :: "unit prog \<Rightarrow> 'b prog \<Rightarrow> 'b prog" where
  "seq p q = then_do p (\<lambda>_. q)"

fun block :: "unit prog list \<Rightarrow> unit prog" where
  "block [] = ret ()"
| "block (p # ps) = seq p (block ps)"

section \<open>The fine-tuning script\<close>

subsection \<open>The environment of a run\<close>

datatype fsnode = RegularFile "string list" | Directory

text \<open>
  A regular file is given by the lines iterating over it yields. \<open>tokenizer_call\<close>
  receives the text and the padding, truncation and maximum-length options;
  \<open>permutation seed n\<close> is the order in which the seeded generator of the dataset library
  arranges \<open>n\<close> row indices.
\<close>

record world =
  dependencies :: "exn option"
  cuda_is_available :: bool
  tokenizer_from_pretrained :: "string \<Rightarrow> exn option"
  model_from_pretrained :: "string \<Rightarrow> exn option"
  path_node :: "string \<Rightarrow> fsnode option"
  json_loads :: "string \<Rightarrow> exn + json"
  stdin_line :: "string option"
  tokenizer_call :: "json \<Rightarrow> string \<Rightarrow> bool \<Rightarrow> nat \<Rightarrow> exn + nat list"
  permutation :: "nat \<Rightarrow> nat \<Rightarrow> nat list"
  training_arguments :: "training_config \<Rightarrow> exn option"
  make_trainer :: "exn option"
  trainer_train :: "exn option"
  trainer_evaluate :: "exn + (string \<times> rat) list"
  save_model :: "string \<Rightarrow> exn option"
  save_pretrained :: "string \<Rightarrow> exn option"

record args =
  data :: string
  output_arg :: string
  epochs :: int
  batch_size :: int
  learning_rate :: rat
  gpu :: bool

subsection \<open>\<open>load_training_data\<close>\<close>

text \<open>The loop over the lines: blank lines are passed over, every other line is parsed.\<close>

fun read_lines :: "world \<Rightarrow> string list \<Rightarrow> json list prog" where
  "read_lines w [] = ret []"
| "read_lines w (line # rest) =
     (if strip line \<noteq> []
      then then_do (call (JsonLoads line) (json_loads w line)) (\<lambda>j.
           then_do (read_lines w rest) (\<lambda>js. ret (j # js)))
      else read_lines w rest)"

definition open_read :: "world \<Rightarrow> string \<Rightarrow> string list prog" where
  "open_read w data_path =
     call (OpenFile data_path)
       (case path_node w data_path of
          Some (RegularFile ls) \<Rightarrow> Inr ls
        | Some Directory \<Rightarrow> Inl (IsADirectoryError data_path)
        | None \<Rightarrow> Inl (OSError data_path))"

definition input :: "world \<Rightarrow> string prog" where
  "input w = call Input (case stdin_line w of None \<Rightarrow> Inl EOFError | Some r \<Rightarrow> Inr r)"

definition low_data_gate :: "world \<Rightarrow> json list \<Rightarrow> unit prog" where
  "low_data_gate w dat =
     (if length dat < 20
      then seq (prints (MsgLowData (length dat)))
          (seq (prints MsgRecommendation)
          (then_do (input w) (\<lambda>response.
             if lower response \<noteq> ''y'' then exit_with 0 else ret ())))
      else ret ())"

definition load_training_data :: "world \<Rightarrow> string \<Rightarrow> json list prog" where
  "load_training_data w data_path =
     seq (if path_node w data_path = None
          then block [prints (MsgDataNotFound data_path), prints MsgGenerateFirst,
                      prints MsgExportHint, exit_with 1]
          else ret ())
     (then_do (open_read w data_path) (\<lambda>ls.
      then_do (read_lines w ls) (\<lambda>dat.
      seq (low_data_gate w dat) (ret dat))))"

subsection \<open>\<open>prepare_dataset\<close>\<close>

text \<open>\<open>[item[k] for item in data]\<close>: the first item that cannot be subscripted raises.\<close>

fun column :: "string \<Rightarrow> json list \<Rightarrow> exn + json list" where
  "column k [] = Inr []"
| "column k (item # rest) =
     (case getitem item k of
        Inl e \<Rightarrow> Inl e
      | Inr v \<Rightarrow> (case column k rest of Inl e \<Rightarrow> Inl e | Inr vs \<Rightarrow> Inr (v # vs)))"

text \<open>A row of the tokenized dataset.\<close>

record example =
  ex_text :: json
  ex_label :: json
  input_ids :: "nat list"

text \<open>
  Modelled from the spec: \<open>Dataset.from_dict\<close> and \<open>Dataset.map\<close> of the dataset library,
  which is not part of the repository. The spec has the raw list wrapped into a dataset and
  the tokenization function applied to every example; the rows keep their order.
\<close>

definition from_dict :: "json list \<Rightarrow> json list \<Rightarrow> (json \<times> json) list" where
  "from_dict texts labels = zip texts labels"

definition tokenize_function :: "world \<Rightarrow> json \<Rightarrow> nat list prog" where
  "tokenize_function w text =
     call (TokenizerCall text) (tokenizer_call w text ''max_length'' True 128)"

fun dataset_map :: "world \<Rightarrow> (json \<times> json) list \<Rightarrow> example list prog" where
  "dataset_map w [] = ret []"
| "dataset_map w ((t, l) # rest) =
     then_do (tokenize_function w t) (\<lambda>ids.
     then_do (dataset_map w rest) (\<lambda>rows.
       ret (\<lparr>ex_text = t, ex_label = l, input_ids = ids\<rparr> # rows)))"

text \<open>
  Modelled from the spec: \<open>train_test_split\<close> of the dataset library, which is not part of
  the repository. The spec has the rows partitioned into a training and a validation subset
  by a fixed random seed and a validation fraction: the seeded generator arranges the row
  indices, the leading \<open>\<lceil>test_size * n\<rceil>\<close> of them form the validation subset and the
  others the training subset.
\<close>

definition train_test_split ::
    "(nat \<Rightarrow> nat \<Rightarrow> nat list) \<Rightarrow> 'a list \<Rightarrow> rat \<Rightarrow> nat \<Rightarrow> 'a list \<times> 'a list" where
  "train_test_split perm rows test_size seed =
     (let n = length rows;
          n_test = nat \<lceil>test_size * of_nat n\<rceil>;
          order = perm seed n
      in (map (\<lambda>i. rows ! i) (drop n_test order), map (\<lambda>i. rows ! i) (take n_test order)))"

definition prepare_dataset ::
    "world \<Rightarrow> json list \<Rightarrow> rat \<Rightarrow> (example list \<times> example list) prog" where
  "prepare_dataset w dat val_split =
     then_do (case column ''text'' dat of Inl e \<Rightarrow> raise e | Inr ts \<Rightarrow> ret ts) (\<lambda>texts.
     then_do (case column ''label'' dat of Inl e \<Rightarrow> raise e | Inr ls \<Rightarrow> ret ls) (\<lambda>labels.
     then_do (dataset_map w (from_dict texts labels)) (\<lambda>tokenized.
     seq (emit (TrainTestSplit val_split 42))
         (ret (train_test_split (permutation w) tokenized val_split 42)))))"

definition default_val_split :: rat where
  "default_val_split = 1 / 10"

subsection \<open>\<open>compute_metrics\<close>\<close>

text \<open>\<open>argmax\<close> of a row of scores: the position of the first largest score.\<close>

fun first_max :: "'a::linorder list \<Rightarrow> nat" where
  "first_max [] = 0"
| "first_max [x] = 0"
| "first_max (x # y # ys) =
     (let i = first_max (y # ys) in if (y # ys) ! i \<le> x then 0 else Suc i)"

definition argmax :: "'a::linorder list \<Rightarrow> exn + nat" where
  "argmax xs = (if xs = [] then Inl (ValueError ''argmax of an empty sequence'')
                else Inr (first_max xs))"

fun argmax_rows :: "'a::linorder list list \<Rightarrow> exn + nat list" where
  "argmax_rows [] = Inr []"
| "argmax_rows (r # rs) =
     (case argmax r of
        Inl e \<Rightarrow> Inl e
      | Inr i \<Rightarrow> (case argmax_rows rs of Inl e \<Rightarrow> Inl e | Inr is \<Rightarrow> Inr (i # is)))"

text \<open>
  Modelled from the spec: the four scoring functions of the metrics library, which is not
  part of the repository. The spec has them follow the standard formulas of binary
  classification with label 1 as the positive class: precision is true positives over true
  positives plus false positives, recall is true positives over true positives plus false
  negatives, F1 is the harmonic mean of the two, accuracy is the share of predictions equal
  to their label. A ratio with denominator zero is reported as zero. Floats are modelled by
  exact rationals.
\<close>

definition ratio :: "nat \<Rightarrow> nat \<Rightarrow> rat" where
  "ratio a b = (if b = 0 then 0 else of_nat a / of_nat b)"

definition true_positives :: "nat list \<Rightarrow> nat list \<Rightarrow> nat" where
  "true_positives labels preds = length (filter (\<lambda>(l, p). l = 1 \<and> p = 1) (zip labels preds))"

definition false_positives :: "nat list \<Rightarrow> nat list \<Rightarrow> nat" where
  "false_positives labels preds = length (filter (\<lambda>(l, p). l \<noteq> 1 \<and> p = 1) (zip labels preds))"

definition false_negatives :: "nat list \<Rightarrow> nat list \<Rightarrow> nat" where
  "false_negatives labels preds = length (filter (\<lambda>(l, p). l = 1 \<and> p \<noteq> 1) (zip labels preds))"

definition accuracy_score :: "nat list \<Rightarrow> nat list \<Rightarrow> rat" where
  "accuracy_score labels preds =
     ratio (length (filter (\<lambda>(l, p). l = p) (zip labels preds))) (length labels)"

definition precision_score :: "nat list \<Rightarrow> nat list \<Rightarrow> rat" where
  "precision_score labels preds =
     ratio (true_positives labels preds)
           (true_positives labels preds + false_positives labels preds)"

definition recall_score :: "nat list \<Rightarrow> nat list \<Rightarrow> rat" where
  "recall_score labels preds =
     ratio (true_positives labels preds)
           (true_positives labels preds + false_negatives labels preds)"

definition f1_score :: "nat list \<Rightarrow> nat list \<Rightarrow> rat" where
  "f1_score labels preds =
     (let p = precision_score labels preds; r = recall_score labels preds
      in if p + r = 0 then 0 else 2 * p * r / (p + r))"

record metrics =
  accuracy :: rat
  f1 :: rat
  precision :: rat
  recall :: rat

text \<open>
  \<open>eval_pred\<close> is the pair of the raw scores, one row per example, and the labels. The
  scoring functions reject inputs of different lengths.
\<close>

definition compute_metrics :: "rat list list \<times> nat list \<Rightarrow> exn + metrics" where
  "compute_metrics eval_pred =
     (case eval_pred of (predictions, labels) \<Rightarrow>
        (case argmax_rows predictions of
           Inl e \<Rightarrow> Inl e
         | Inr preds \<Rightarrow>
             if length labels \<noteq> length preds
             then Inl (ValueError ''inconsistent numbers of samples'')
             else Inr \<lparr>accuracy = accuracy_score labels preds,
                      f1 = f1_score labels preds,
                      precision = precision_score labels preds,
                      recall = recall_score labels preds\<rparr>))"

subsection \<open>\<open>main\<close>\<close>

text \<open>\<open>sum(1 for d in data if d['label'] == 1)\<close>: the first record without a label raises.\<close>

fun count_positive :: "json list \<Rightarrow> exn + nat" where
  "count_positive [] = Inr 0"
| "count_positive (d # ds) =
     (case getitem d ''label'' of
        Inl e \<Rightarrow> Inl e
      | Inr v \<Rightarrow> (case count_positive ds of
                   Inl e \<Rightarrow> Inl e
                 | Inr n \<Rightarrow> Inr (if eq_one v then Suc n else n)))"

definition base_model :: string where
  "base_model = ''mohameddhiab/humor-no-humor''"

definition select_device :: "world \<Rightarrow> args \<Rightarrow> string" where
  "select_device w a = (if gpu a \<and> cuda_is_available w then ''cuda'' else ''cpu'')"

definition make_config :: "args \<Rightarrow> string \<Rightarrow> training_config" where
  "make_config a device =
     \<lparr>output_dir = output_arg a,
      num_train_epochs = epochs a,
      per_device_train_batch_size = batch_size a,
      per_device_eval_batch_size = batch_size a,
      cfg_learning_rate = learning_rate a,
      weight_decay = 1 / 100,
      eval_strategy = ''epoch'',
      save_strategy = ''epoch'',
      load_best_model_at_end = True,
      metric_for_best_model = ''f1'',
      logging_dir = output_arg a @ ''/logs'',
      logging_steps = 10,
      save_total_limit = 2,
      report_to = ''none'',
      use_cpu = (device = ''cpu'')\<rparr>"

text \<open>
  The loop over the evaluation results: one line for each key that starts with \<open>eval_\<close>.
  The message carries the key; the printed name is the key with \<open>eval_\<close> removed and
  capitalized.
\<close>

fun print_metrics :: "(string \<times> rat) list \<Rightarrow> unit prog" where
  "print_metrics [] = ret ()"
| "print_metrics ((k, v) # rest) =
     seq (if take 5 k = ''eval_'' then prints (MsgMetric k v) else ret ())
         (print_metrics rest)"

text \<open>Everything from the construction of the training arguments to the last line.\<close>

definition train_and_save :: "world \<Rightarrow> args \<Rightarrow> string \<Rightarrow> unit prog" where
  "train_and_save w a device =
     seq (attempt (MakeTrainingArguments (make_config a device))
            (training_arguments w (make_config a device)))
    (seq (attempt (MakeTrainer 2) (make_trainer w))
    (seq (block [prints MsgDashes, prints MsgTraining, prints MsgDashes,
                 prints (MsgEpochs (epochs a)), prints (MsgBatchSize (batch_size a)),
                 prints (MsgLearningRate (learning_rate a)), prints MsgStarting])
    (seq (attempt Train (trainer_train w))
    (seq (block [prints MsgDashes, prints MsgEvaluation, prints MsgDashes])
    (then_do (call Evaluate (trainer_evaluate w)) (\<lambda>eval_results.
     seq (prints MsgFinalMetrics)
    (seq (print_metrics eval_results)
    (seq (block [prints MsgDashes, prints MsgSaving, prints MsgDashes])
    (seq (attempt (SaveModel (output_arg a)) (save_model w (output_arg a)))
    (seq (attempt (SavePretrained (output_arg a)) (save_pretrained w (output_arg a)))
         (block [prints (MsgSaved (output_arg a)), prints MsgNextSteps, prints MsgStep1,
                 prints MsgStep2, prints MsgStep3, prints MsgRule])))))))))))"

text \<open>The class counts and the ratio line.\<close>

definition report_classes :: "json list \<Rightarrow> unit prog" where
  "report_classes dat =
     seq (prints (MsgTotal (length dat)))
    (then_do (case count_positive dat of Inl e \<Rightarrow> raise e | Inr n \<Rightarrow> ret n) (\<lambda>positive.
     seq (prints (MsgPositive positive))
    (seq (prints (MsgNegative (int (length dat) - int positive)))
    (then_do (case truediv (int positive) (int (length dat) - int positive) of
                Inl e \<Rightarrow> raise e | Inr q \<Rightarrow> ret q) (\<lambda>q.
       prints (MsgClassRatio q))))))"

text \<open>What \<open>main\<close> does with the loaded data.\<close>

definition process_data :: "world \<Rightarrow> args \<Rightarrow> json list \<Rightarrow> unit prog" where
  "process_data w a dat =
     seq (report_classes dat)
    (seq (prints MsgPreparing)
    (then_do (prepare_dataset w dat default_val_split) (\<lambda>(train_dataset, val_dataset).
     seq (prints (MsgTrainSamples (length train_dataset)))
    (seq (prints (MsgValSamples (length val_dataset)))
         (train_and_save w a (select_device w a))))))"

text \<open>\<open>main\<close>, after the command line has been parsed into \<open>args\<close>.\<close>

definition main :: "world \<Rightarrow> args \<Rightarrow> unit prog" where
  "main w a =
     seq (block [prints MsgRule, prints MsgTitle, prints MsgRule,
                 prints (MsgDevice (select_device w a))])
    (seq (if gpu a \<and> \<not> cuda_is_available w then prints MsgGpuUnavailable else ret ())
    (seq (prints (MsgLoadingBase base_model))
    (seq (attempt (TokenizerFromPretrained base_model) (tokenizer_from_pretrained w base_model))
    (seq (attempt (ModelFromPretrained base_model (Some 2)) (model_from_pretrained w base_model))
    (seq (prints (MsgLoadingData (data a)))
    (then_do (load_training_data w (data a)) (process_data w a)))))))"

text \<open>The script: the imports at the top of the module, then \<open>main\<close>.\<close>

definition fine_tune_script :: "world \<Rightarrow> args \<Rightarrow> unit prog" where
  "fine_tune_script w a =
     (case dependencies w of
        Some e \<Rightarrow> block [prints MsgMissingDependencies, prints MsgPleaseInstall,
                         prints MsgPipInstall, prints (MsgImportError e), exit_with 1]
      | None \<Rightarrow> main w a)"

subsection \<open>The record format of the dataset file\<close>


section \<open>The converter script\<close>

text \<open>
  What the converter obtains from outside: the outcome of its imports and of each library
  call. A loaded model is given by the \<open>id2label\<close> table of its configuration; the exported
  model maps the encoding of one sentence to one row of class scores.
\<close>

record conv_world =
  conv_imports :: "exn option"
  mkdir :: "string \<Rightarrow> exn option"
  conv_tokenizer_from_pretrained :: "string \<Rightarrow> exn option"
  conv_model_from_pretrained :: "string \<Rightarrow> exn + (nat \<rightharpoonup> string)"
  ort_from_pretrained :: "string \<Rightarrow> exn option"
  ort_save_pretrained :: "string \<Rightarrow> exn option"
  tokenizer_save_pretrained :: "string \<Rightarrow> exn option"
  tokenizer_text :: "string \<Rightarrow> exn + nat list"
  onnx_model :: "nat list \<Rightarrow> exn + real list"

definition MODEL_NAME :: string where
  "MODEL_NAME = ''mohameddhiab/humor-no-humor''"

definition OUTPUT_DIR :: string where
  "OUTPUT_DIR = ''models/humor-detector''"

definition test_texts :: "string list" where
  "test_texts =
     [''This is hilarious! I can't stop laughing!'',
      ''The quarterly financial report shows steady growth.'',
      ''Why did the chicken cross the road? To get to the other side!'']"

text \<open>
  Modelled from the spec: \<open>softmax\<close> of the tensor library, which is not part of the
  repository, by its definition over the reals: each score's exponential over the sum of
  the exponentials of the row.
\<close>

definition softmax :: "real list \<Rightarrow> real list" where
  "softmax xs = map (\<lambda>x. exp x / sum_list (map exp xs)) xs"

text \<open>\<open>model.config.id2label[predicted_class]\<close>.\<close>

definition id2label_lookup :: "(nat \<rightharpoonup> string) \<Rightarrow> nat \<Rightarrow> exn + string" where
  "id2label_lookup id2label c =
     (case id2label c of None \<Rightarrow> Inl (KeyError ''id2label'') | Some l \<Rightarrow> Inr l)"

text \<open>The body of the loop over the test sentences.\<close>

definition test_one :: "conv_world \<Rightarrow> (nat \<rightharpoonup> string) \<Rightarrow> string \<Rightarrow> unit prog" where
  "test_one w id2label text =
     then_do (call (TokenizerText text) (tokenizer_text w text)) (\<lambda>inputs.
     then_do (call (OnnxCall inputs) (onnx_model w inputs)) (\<lambda>logits.
     then_do (case argmax logits of Inl e \<Rightarrow> raise e | Inr c \<Rightarrow> ret c) (\<lambda>predicted_class.
     then_do (case id2label_lookup id2label predicted_class of
                Inl e \<Rightarrow> raise e | Inr l \<Rightarrow> ret l) (\<lambda>label.
     seq (conv_prints (MsgText (take 60 text)))
         (conv_prints (MsgPrediction label (softmax logits ! predicted_class)))))))"

fun test_loop :: "conv_world \<Rightarrow> (nat \<rightharpoonup> string) \<Rightarrow> string list \<Rightarrow> unit prog" where
  "test_loop w id2label [] = ret ()"
| "test_loop w id2label (text # rest) =
     seq (test_one w id2label text) (test_loop w id2label rest)"

text \<open>The body of the \<open>try\<close> statement: load, export, save, test.\<close>

definition pipeline :: "conv_world \<Rightarrow> unit prog" where
  "pipeline w =
     seq (conv_prints MsgLoadingOriginal)
    (seq (attempt (TokenizerFromPretrained MODEL_NAME) (conv_tokenizer_from_pretrained w MODEL_NAME))
    (then_do (call (ModelFromPretrained MODEL_NAME None) (conv_model_from_pretrained w MODEL_NAME))
       (\<lambda>id2label.
     seq (block [conv_prints MsgModelLoaded, conv_prints MsgConvertingToOnnx])
    (seq (attempt (OrtFromPretrained MODEL_NAME) (ort_from_pretrained w MODEL_NAME))
    (seq (block [conv_prints MsgConversionSuccessful, conv_prints MsgSavingOnnx])
    (seq (attempt (OrtSavePretrained OUTPUT_DIR) (ort_save_pretrained w OUTPUT_DIR))
    (seq (attempt (SavePretrained OUTPUT_DIR) (tokenizer_save_pretrained w OUTPUT_DIR))
    (seq (block [conv_prints (MsgSavedTo OUTPUT_DIR), conv_prints MsgTesting])
    (seq (test_loop w id2label test_texts)
         (block [conv_prints MsgComplete, conv_prints MsgConvNextSteps, conv_prints (MsgConvStep1 OUTPUT_DIR),
                 conv_prints (MsgConvStep2 OUTPUT_DIR), conv_prints MsgConvStep3]))))))))))"

text \<open>
  \<open>try: ... except Exception as e\<close>: an exception that escapes the body is reported with
  its message and its stack trace, and the process exits with status 1. A body that
  returns or exits is left as it is.
\<close>

definition try_except :: "unit prog \<Rightarrow> unit prog" where
  "try_except body =
     (case snd body of
        Raised e \<Rightarrow>
          (fst body @ [ConvPrint (MsgConversionError e), PrintTraceback e], Exited 1)
      | _ \<Rightarrow> body)"

definition convert_model :: "conv_world \<Rightarrow> unit prog" where
  "convert_model w =
     seq (case conv_imports w of
            None \<Rightarrow> conv_prints MsgImportsOk
          | Some e \<Rightarrow> block [conv_prints (MsgMissingPackage e), conv_prints MsgConvPleaseInstall,
                             conv_prints MsgConvPipInstall, exit_with 1])
    (seq (block [conv_prints (MsgConverting MODEL_NAME), conv_prints (MsgOutputDirectory OUTPUT_DIR)])
    (seq (attempt (Mkdir OUTPUT_DIR) (mkdir w OUTPUT_DIR))
         (try_except (pipeline w))))"

definition converter_script :: "conv_world \<Rightarrow> unit prog" where
  "converter_script w =
     seq (block [conv_prints MsgConverterTitle, conv_prints MsgConverterRule]) (convert_model w)"

text \<open>The predictions a run printed, in order.\<close>

definition prediction_of :: "event \<Rightarrow> (string \<times> real) list" where
  "prediction_of ev =
     (case ev of
        ConvPrint m \<Rightarrow> (case m of MsgPrediction l c \<Rightarrow> [(l, c)] | _ \<Rightarrow> [])
      | _ \<Rightarrow> [])"

definition predictions_of :: "event list \<Rightarrow> (string \<times> real) list" where
  "predictions_of es = concat (map prediction_of es)"

section \<open>Sample runs\<close>

text \<open>
  A small dataset file: a humorous example, a blank line and a plain example. The sample
  parser yields on these lines, and on the empty object, what \<open>json.loads\<close> yields on
  them; any other line it reports as malformed.
\<close>

definition joke_line :: string where
  \<open>joke_line = ''{"text": "knock knock", "label": 1}'' @ ''\<newline>''\<close>

definition plain_line :: string where
  \<open>plain_line = ''{"text": "the report is due", "label": 0}'' @ ''\<newline>''\<close>

definition joke_record :: json where
  "joke_record = JObj [(''text'', JStr ''knock knock''), (''label'', JInt 1)]"

definition plain_record :: json where
  "plain_record = JObj [(''text'', JStr ''the report is due''), (''label'', JInt 0)]"

definition sample_loads :: "string \<Rightarrow> exn + json" where
  "sample_loads line =
     (if strip line = strip joke_line then Inr joke_record
      else if strip line = strip plain_line then Inr plain_record
      else if strip line = ''{}'' then Inr (JObj [])
      else Inl (JSONDecodeError line))"

definition sample_file :: "string list" where
  "sample_file = [joke_line, ''\<newline>'', plain_line]"

definition sample_tokenizer :: "json \<Rightarrow> string \<Rightarrow> bool \<Rightarrow> nat \<Rightarrow> exn + nat list" where
  "sample_tokenizer text padding truncation max_length =
     (case text of
        JStr s \<Rightarrow> Inr (take max_length (map of_char s @ replicate max_length 0))
      | _ \<Rightarrow> Inl TypeError)"

definition sample_world :: world where
  "sample_world =
     \<lparr>dependencies = None,
      cuda_is_available = False,
      tokenizer_from_pretrained = (\<lambda>_. None),
      model_from_pretrained = (\<lambda>_. None),
      path_node = (\<lambda>p. if p = ''training-data.jsonl'' then Some (RegularFile sample_file)
                        else None),
      json_loads = sample_loads,
      stdin_line = Some ''y'',
      tokenizer_call = sample_tokenizer,
      permutation = (\<lambda>seed n. rev [0..<n]),
      training_arguments = (\<lambda>_. None),
      make_trainer = None,
      trainer_train = None,
      trainer_evaluate = Inr [(''eval_f1'', 1), (''epoch'', 3)],
      save_model = (\<lambda>_. None),
      save_pretrained = (\<lambda>_. None)\<rparr>"

definition sample_args :: args where
  "sample_args =
     \<lparr>data = ''training-data.jsonl'',
      output_arg = ''models/humor-detector-custom'',
      epochs = 3,
      batch_size = 8,
      learning_rate = 2 / 100000,
      gpu = True\<rparr>"

text \<open>A converter run in which every library call succeeds.\<close>

definition sample_conv_world :: conv_world where
  "sample_conv_world =
     \<lparr>conv_imports = None,
      mkdir = (\<lambda>_. None),
      conv_tokenizer_from_pretrained = (\<lambda>_. None),
      conv_model_from_pretrained = (\<lambda>_. Inr [0 \<mapsto> ''NO_HUMOR'', 1 \<mapsto> ''HUMOR'']),
      ort_from_pretrained = (\<lambda>_. None),
      ort_save_pretrained = (\<lambda>_. None),
      tokenizer_save_pretrained = (\<lambda>_. None),
      tokenizer_text = (\<lambda>s. Inr (map of_char s)),
      onnx_model = (\<lambda>ids. Inr [0, 1])\<rparr>"

section \<open>Running a program\<close>

lemma seq_prints: "seq (prints m) q = (Print m # fst q, snd q)"
  by (simp add: seq_def then_do_def prints_def)

lemma seq_conv_prints: "seq (conv_prints m) q = (ConvPrint m # fst q, snd q)"
  by (simp add: seq_def then_do_def conv_prints_def)

lemma seq_emit: "seq (emit ev) q = (ev # fst q, snd q)"
  by (simp add: seq_def then_do_def emit_def)

lemma seq_ret: "seq (ret x) q = q"
  by (simp add: seq_def then_do_def ret_def)

lemma then_do_ret: "then_do (ret x) f = f x"
  by (simp add: then_do_def ret_def)

lemma then_do_raise: "then_do (raise e) f = ([], Raised e)"
  by (simp add: then_do_def raise_def)

lemma seq_exit: "seq (exit_with n) q = ([], Exited n)"
  by (simp add: seq_def then_do_def exit_with_def)

lemma seq_attempt:
  "seq (attempt ev r) q =
     (case r of None \<Rightarrow> (ev # fst q, snd q) | Some e \<Rightarrow> ([ev], Raised e))"
  by (simp add: seq_def then_do_def attempt_def split: option.splits)

lemma then_do_call:
  "then_do (call ev r) f =
     (case r of Inr v \<Rightarrow> (ev # fst (f v), snd (f v)) | Inl e \<Rightarrow> ([ev], Raised e))"
  by (simp add: then_do_def call_def split: sum.splits)

lemma seq_cons: "seq (e # es, r) q = (e # fst (seq (es, r) q), snd (seq (es, r) q))"
  by (simp add: seq_def then_do_def split: outcome.splits)

lemma then_do_cons:
  "then_do (e # es, r) f = (e # fst (then_do (es, r) f), snd (then_do (es, r) f))"
  by (simp add: then_do_def split: outcome.splits)

lemma seq_nil_Returned: "seq ([], Returned x) q = q"
  by (simp add: seq_def then_do_def)

lemma seq_nil_Exited: "seq ([], Exited n) q = ([], Exited n)"
  by (simp add: seq_def then_do_def)

lemma seq_nil_Raised: "seq ([], Raised e) q = ([], Raised e)"
  by (simp add: seq_def then_do_def)

lemma then_do_nil_Returned: "then_do ([], Returned x) f = f x"
  by (simp add: then_do_def)

lemma then_do_nil_Exited: "then_do ([], Exited n) f = ([], Exited n)"
  by (simp add: then_do_def)

lemma then_do_nil_Raised: "then_do ([], Raised e) f = ([], Raised e)"
  by (simp add: then_do_def)

lemmas run_simps =
  seq_prints seq_conv_prints seq_emit seq_ret then_do_ret then_do_raise seq_exit seq_attempt
  then_do_call seq_cons then_do_cons seq_nil_Returned seq_nil_Exited seq_nil_Raised
  then_do_nil_Returned then_do_nil_Exited then_do_nil_Raised block.simps

lemma snd_then_do:
  "snd (then_do p f) =
     (case snd p of Returned x \<Rightarrow> snd (f x) | Exited n \<Rightarrow> Exited n | Raised e \<Rightarrow> Raised e)"
  by (simp add: then_do_def split: outcome.splits)

lemma fst_then_do:
  "fst (then_do p f) = (case snd p of Returned x \<Rightarrow> fst p @ fst (f x) | _ \<Rightarrow> fst p)"
  by (simp add: then_do_def split: outcome.splits)

lemma snd_seq:
  "snd (seq p q) =
     (case snd p of Returned x \<Rightarrow> snd q | Exited n \<Rightarrow> Exited n | Raised e \<Rightarrow> Raised e)"
  by (simp add: seq_def snd_then_do)

lemma fst_seq:
  "fst (seq p q) = (case snd p of Returned x \<Rightarrow> fst p @ fst q | _ \<Rightarrow> fst p)"
  by (simp add: seq_def fst_then_do)

section \<open>The operator's answer\<close>

lemma lower_char_y: "lower_char c = CHR ''y'' \<longleftrightarrow> c = CHR ''y'' \<or> c = CHR ''Y''"
proof -
  define n where "n = (of_char c :: nat)"
  have ny: "(of_char CHR ''y'' :: nat) = 121" by simp
  have nY: "(of_char CHR ''Y'' :: nat) = 89" by simp
  have eq_iff: "c = d \<longleftrightarrow> n = of_char d" for d
    unfolding n_def by (simp only: of_char_eq_iff)
  show ?thesis
  proof (cases "(65 \<le> n \<and> n \<le> 90) \<or> (192 \<le> n \<and> n \<le> 222 \<and> n \<noteq> 215)")
    case True
    then have lt: "n + 32 < 256" by arith
    have "lower_char c = char_of (n + 32)"
      using True by (simp add: lower_char_def n_def[symmetric] Let_def)
    then have "lower_char c = CHR ''y'' \<longleftrightarrow> (of_char (char_of (n + 32)) :: nat) = 121"
      by (metis ny of_char_eq_iff)
    also have "\<dots> \<longleftrightarrow> n = 89"
      using lt by (simp only: of_char_of mod_less) arith
    finally have a: "lower_char c = CHR ''y'' \<longleftrightarrow> n = 89" .
    have b: "c = CHR ''Y'' \<longleftrightarrow> n = 89" using eq_iff[of "CHR ''Y''"] nY by simp
    have "n \<noteq> 121" using True by arith
    then have c: "c \<noteq> CHR ''y''" using eq_iff[of "CHR ''y''"] ny by simp
    show ?thesis using a b c by simp
  next
    case False
    then have a: "lower_char c = c"
      by (auto simp add: lower_char_def n_def[symmetric] Let_def)
    have "n \<noteq> 89" using False by arith
    then have "c \<noteq> CHR ''Y''" using eq_iff[of "CHR ''Y''"] nY by simp
    with a show ?thesis by simp
  qed
qed

lemma lower_y: "lower r = ''y'' \<longleftrightarrow> r = ''y'' \<or> r = ''Y''"
proof (cases r)
  case Nil
  then show ?thesis by (simp add: lower_def)
next
  case (Cons c cs)
  then show ?thesis by (cases cs) (simp_all add: lower_def lower_char_y)
qed

section \<open>Device selection\<close>

text \<open>
  Claim C10. The fine-tuner selects the device \<open>cuda\<close> if and only if the \<open>--gpu\<close> flag
  is given and an accelerator is available, and \<open>cpu\<close> in every other case; the trainer is
  told to use the CPU exactly then. When the flag is given and no accelerator is available,
  the run prints a warning after the device line and carries on with loading the base model.
\<close>

theorem device_selection:
  "(select_device w a = ''cuda'' \<longleftrightarrow> gpu a \<and> cuda_is_available w) \<and>
   (select_device w a = ''cpu'' \<longleftrightarrow> \<not> (gpu a \<and> cuda_is_available w)) \<and>
   (use_cpu (make_config a (select_device w a)) \<longleftrightarrow> \<not> (gpu a \<and> cuda_is_available w)) \<and>
   (\<exists>rest. fst (main w a) =
      [Print MsgRule, Print MsgTitle, Print MsgRule, Print (MsgDevice (select_device w a))]
      @ (if gpu a \<and> \<not> cuda_is_available w then [Print MsgGpuUnavailable] else [])
      @ [Print (MsgLoadingBase base_model), TokenizerFromPretrained base_model] @ rest)"
  by (simp add: select_device_def make_config_def main_def run_simps split: option.splits)

theorem device_selection_witness:
  "select_device sample_world sample_args = ''cpu'' \<and>
   select_device (sample_world\<lparr>cuda_is_available := True\<rparr>) sample_args = ''cuda'' \<and>
   select_device (sample_world\<lparr>cuda_is_available := True\<rparr>) (sample_args\<lparr>gpu := False\<rparr>)
     = ''cpu'' \<and>
   take 6 (fst (main sample_world sample_args)) =
     [Print MsgRule, Print MsgTitle, Print MsgRule, Print (MsgDevice ''cpu''),
      Print MsgGpuUnavailable, Print (MsgLoadingBase base_model)]"
  using device_selection [of sample_world sample_args]
    device_selection [of "sample_world\<lparr>cuda_is_available := True\<rparr>" sample_args]
    device_selection [of "sample_world\<lparr>cuda_is_available := True\<rparr>"
      "sample_args\<lparr>gpu := False\<rparr>"]
  by (auto simp add: sample_world_def sample_args_def)

section \<open>The metrics on the fixed example\<close>

text \<open>
  Claim C2. On raw scores whose row-wise argmax is the prediction vector \<open>[1,0,1,1]\<close>, with
  the label vector \<open>[1,0,0,1]\<close> and label 1 as the positive class, the metric computation
  returns accuracy 3/4, precision 2/3, recall 1 and F1 4/5.
\<close>

theorem compute_metrics_example:
  "compute_metrics ([[0, 1], [1, 0], [0, 1], [0, 1]], [1, 0, 0, 1]) =
     Inr \<lparr>accuracy = 3 / 4, f1 = 4 / 5, precision = 2 / 3, recall = 1\<rparr> \<and>
   argmax_rows [[0, 1], [1, 0], [0, 1], [0, 1 :: rat]] = Inr [1, 0, 1, 1] \<and>
   accuracy_score [1, 0, 0, 1] [1, 0, 1, 1] = 3 / 4 \<and>
   precision_score [1, 0, 0, 1] [1, 0, 1, 1] = 2 / 3 \<and>
   recall_score [1, 0, 0, 1] [1, 0, 1, 1] = 1 \<and>
   f1_score [1, 0, 0, 1] [1, 0, 1, 1] = 4 / 5"
  by (simp add: compute_metrics_def argmax_def accuracy_score_def f1_score_def
      precision_score_def recall_score_def true_positives_def false_positives_def
      false_negatives_def ratio_def)

section \<open>A dataset path that does not exist\<close>

lemma load_missing:
  "path_node w p = None \<Longrightarrow>
   load_training_data w p =
     ([Print (MsgDataNotFound p), Print MsgGenerateFirst, Print MsgExportHint], Exited 1)"
  by (simp add: load_training_data_def run_simps)

lemma load_directory:
  "path_node w p = Some Directory \<Longrightarrow>
   load_training_data w p = ([OpenFile p], Raised (IsADirectoryError p))"
  by (simp add: load_training_data_def open_read_def run_simps)

text \<open>
  Claim C1, as amended. For every dataset path that does not refer to an existing file, the
  run ends with status 1 and never trains. When nothing exists at the path, the loader
  prints the error message and exits with status 1 without opening the file; when the path
  is a directory, opening it raises. \<open>main\<close> reaches the loader only after it has loaded
  the tokenizer and the base model: when both loads succeed, the run ends with the loader's
  exit, and the two loads precede the error message.
\<close>

theorem missing_dataset_is_fatal:
  assumes "\<forall>ls. path_node w (data a) \<noteq> Some (RegularFile ls)"
  shows "exit_status (snd (main w a)) = 1 \<and>
         Train \<notin> set (fst (main w a)) \<and>
         (path_node w (data a) = None \<longrightarrow>
            load_training_data w (data a) =
              ([Print (MsgDataNotFound (data a)), Print MsgGenerateFirst, Print MsgExportHint],
               Exited 1) \<and>
            OpenFile (data a) \<notin> set (fst (main w a)) \<and>
            (tokenizer_from_pretrained w base_model = None \<and>
             model_from_pretrained w base_model = None \<longrightarrow>
               snd (main w a) = Exited 1 \<and>
               (\<exists>pre. fst (main w a) =
                  pre @ [TokenizerFromPretrained base_model,
                         ModelFromPretrained base_model (Some 2),
                         Print (MsgLoadingData (data a)), Print (MsgDataNotFound (data a)),
                         Print MsgGenerateFirst, Print MsgExportHint]))) \<and>
         (path_node w (data a) = Some Directory \<and>
          tokenizer_from_pretrained w base_model = None \<and>
          model_from_pretrained w base_model = None \<longrightarrow>
            snd (main w a) = Raised (IsADirectoryError (data a)))"
proof (cases "path_node w (data a)")
  case None
  then show ?thesis
    by (simp add: load_missing main_def run_simps split: option.splits)
next
  case (Some node)
  with assms have "path_node w (data a) = Some Directory" by (cases node) simp_all
  then show ?thesis
    by (simp add: load_directory main_def run_simps split: option.splits)
qed

theorem missing_dataset_is_fatal_witness:
  "path_node (sample_world\<lparr>path_node := (\<lambda>_. None)\<rparr>) (data sample_args) = None \<and>
   exit_status (snd (main (sample_world\<lparr>path_node := (\<lambda>_. None)\<rparr>) sample_args)) = 1 \<and>
   snd (main (sample_world\<lparr>path_node := (\<lambda>_. None)\<rparr>) sample_args) = Exited 1"
  using missing_dataset_is_fatal [of "sample_world\<lparr>path_node := (\<lambda>_. None)\<rparr>" sample_args]
  by (simp add: sample_world_def)

text \<open>
  The claim as first stated has the exit come before any model or tokenizer is loaded. In
  the run below no file exists at the dataset path, and the tokenizer and the model are
  loaded before the error is reported.
\<close>

theorem missing_dataset_loads_model_first:
  "path_node (sample_world\<lparr>path_node := (\<lambda>_. None)\<rparr>) (data sample_args) = None \<and>
   fst (main (sample_world\<lparr>path_node := (\<lambda>_. None)\<rparr>) sample_args) =
     [Print MsgRule, Print MsgTitle, Print MsgRule, Print (MsgDevice ''cpu''),
      Print MsgGpuUnavailable, Print (MsgLoadingBase base_model),
      TokenizerFromPretrained base_model, ModelFromPretrained base_model (Some 2),
      Print (MsgLoadingData ''training-data.jsonl''),
      Print (MsgDataNotFound ''training-data.jsonl''), Print MsgGenerateFirst,
      Print MsgExportHint] \<and>
   snd (main (sample_world\<lparr>path_node := (\<lambda>_. None)\<rparr>) sample_args) = Exited 1"
  by (simp add: load_missing main_def run_simps sample_world_def sample_args_def
      select_device_def)

section \<open>Loading the dataset\<close>

lemma snd_read_lines:
  "snd (read_lines w ls) = Returned dat \<longleftrightarrow>
   list_all2 (\<lambda>l j. json_loads w l = Inr j) (filter (\<lambda>l. strip l \<noteq> []) ls) dat"
proof (induction ls arbitrary: dat)
  case Nil
  show ?case by (auto simp add: ret_def)
next
  case (Cons line rest)
  show ?case
  proof (cases "strip line \<noteq> []")
    case False
    then show ?thesis using Cons.IH by simp
  next
    case True
    show ?thesis
    proof (cases "json_loads w line")
      case (Inl e)
      then show ?thesis using True
        by (simp add: then_do_call list_all2_Cons1)
    next
      case (Inr j)
      then show ?thesis using True Cons.IH
        by (cases "snd (read_lines w rest)")
           (auto simp add: then_do_call snd_then_do ret_def list_all2_Cons1)
    qed
  qed
qed

lemma fst_low_data_gate:
  "fst (low_data_gate w dat) =
     (if length dat < 20
      then [Print (MsgLowData (length dat)), Print MsgRecommendation, Input] else [])"
  by (simp add: low_data_gate_def input_def run_simps ret_def exit_with_def
      split: option.splits sum.splits)

lemma snd_low_data_gate:
  "snd (low_data_gate w dat) =
     (if length dat < 20
      then (case stdin_line w of
              None \<Rightarrow> Raised EOFError
            | Some r \<Rightarrow> if lower r = ''y'' then Returned () else Exited 0)
      else Returned ())"
  by (simp add: low_data_gate_def input_def run_simps ret_def exit_with_def
      split: option.splits sum.splits)

lemma load_regular:
  "path_node w p = Some (RegularFile ls) \<Longrightarrow>
   load_training_data w p =
     (OpenFile p # fst (then_do (read_lines w ls) (\<lambda>dat. seq (low_data_gate w dat) (ret dat))),
      snd (then_do (read_lines w ls) (\<lambda>dat. seq (low_data_gate w dat) (ret dat))))"
  by (simp add: load_training_data_def open_read_def run_simps)

lemma snd_load_training_data:
  assumes "path_node w p = Some (RegularFile ls)"
  shows "snd (load_training_data w p) = Returned dat \<longleftrightarrow>
           snd (read_lines w ls) = Returned dat \<and> snd (low_data_gate w dat) = Returned ()"
  by (cases "snd (read_lines w ls)")
     (auto simp add: load_regular [OF assms] snd_then_do snd_seq ret_def
        split: outcome.splits)

text \<open>
  Claim C7. For every dataset file, the loader passes over the lines that are empty after
  stripping whitespace and parses every other line; it returns exactly when each of those
  lines parses and the low-data gate lets the run continue, and what it returns is the list
  of the parsed values in file order.
\<close>

theorem load_training_data_returns:
  assumes "path_node w p = Some (RegularFile ls)"
  shows "snd (load_training_data w p) = Returned dat \<longleftrightarrow>
           list_all2 (\<lambda>l j. json_loads w l = Inr j) (filter (\<lambda>l. strip l \<noteq> []) ls) dat \<and>
           (20 \<le> length dat \<or> (\<exists>r. stdin_line w = Some r \<and> lower r = ''y''))"
proof -
  have "snd (low_data_gate w dat) = Returned () \<longleftrightarrow>
        (20 \<le> length dat \<or> (\<exists>r. stdin_line w = Some r \<and> lower r = ''y''))"
    by (auto simp add: snd_low_data_gate split: option.splits)
  then show ?thesis
    by (simp add: snd_load_training_data [OF assms] snd_read_lines)
qed

lemma strip_joke: "strip joke_line \<noteq> []"
  by (simp add: joke_line_def strip_def isspace_def)

lemma strip_plain: "strip plain_line \<noteq> []"
  by (simp add: plain_line_def strip_def isspace_def)

lemma strip_newline: "strip ''\<newline>'' = []"
  by (simp add: strip_def isspace_def)

lemma strip_joke_plain: "strip plain_line \<noteq> strip joke_line"
  by (simp add: plain_line_def joke_line_def strip_def isspace_def)

lemma sample_loads_joke: "sample_loads joke_line = Inr joke_record"
  by (simp add: sample_loads_def)

lemma sample_loads_plain: "sample_loads plain_line = Inr plain_record"
  by (simp add: sample_loads_def strip_joke_plain)

theorem load_training_data_returns_witness:
  "path_node sample_world ''training-data.jsonl'' = Some (RegularFile sample_file) \<and>
   snd (load_training_data sample_world ''training-data.jsonl'') =
     Returned [joke_record, plain_record]"
proof -
  have f: "path_node sample_world ''training-data.jsonl'' = Some (RegularFile sample_file)"
    by (simp add: sample_world_def)
  have l: "json_loads sample_world = sample_loads" "stdin_line sample_world = Some ''y''"
    by (simp_all add: sample_world_def)
  show ?thesis
    using load_training_data_returns [OF f, of "[joke_record, plain_record]"]
    by (simp add: f l sample_file_def strip_joke strip_plain strip_newline
        sample_loads_joke sample_loads_plain lower_y)
qed

section \<open>The low-data gate\<close>

lemma read_lines_events: "e \<in> set (fst (read_lines w ls)) \<Longrightarrow> \<exists>l. e = JsonLoads l"
proof (induction ls)
  case Nil
  then show ?case by (simp add: ret_def)
next
  case (Cons line rest)
  then show ?case
    by (cases "json_loads w line"; cases "snd (read_lines w rest)")
       (auto simp add: then_do_call fst_then_do ret_def split: if_splits)
qed

lemma load_events:
  assumes "e \<in> set (fst (load_training_data w p))"
  shows "e \<in> {Print (MsgDataNotFound p), Print MsgGenerateFirst, Print MsgExportHint,
              Print MsgRecommendation, OpenFile p, Input}
         \<or> (\<exists>l. e = JsonLoads l) \<or> (\<exists>n. e = Print (MsgLowData n))"
proof (cases "path_node w p")
  case None
  then show ?thesis using assms by (auto simp add: load_missing)
next
  case (Some node)
  show ?thesis
  proof (cases node)
    case Directory
    then show ?thesis using assms Some
      by (simp add: load_training_data_def open_read_def run_simps)
  next
    case (RegularFile ls)
    with Some have f: "path_node w p = Some (RegularFile ls)" by simp
    show ?thesis using assms read_lines_events [of e w ls]
      by (cases "snd (read_lines w ls)")
         (auto simp add: load_regular [OF f] fst_then_do fst_seq fst_low_data_gate ret_def
            split: outcome.splits if_splits)
  qed
qed

lemma main_without_data:
  assumes "\<And>dat. snd (load_training_data w (data a)) \<noteq> Returned dat"
  shows "Train \<notin> set (fst (main w a))"
proof -
  have "Train \<notin> set (fst (load_training_data w (data a)))"
    using load_events [of Train w "data a"] by auto
  moreover have "fst (then_do (load_training_data w (data a)) (process_data w a)) =
      fst (load_training_data w (data a))"
    using assms by (cases "snd (load_training_data w (data a))") (auto simp add: fst_then_do)
  ultimately show ?thesis
    by (simp add: main_def run_simps split: option.splits)
qed

text \<open>
  Claim C4. For every loaded dataset with fewer than 20 examples, the loader ends its
  output with the warning, the recommendation and the prompt. On an answer it returns the
  data when the answer is \<open>y\<close> or \<open>Y\<close> and exits with status 0 on any other answer; the
  whole run then ends with status 0, and a run reaches training only on the answer \<open>y\<close>
  or \<open>Y\<close>.
\<close>

theorem low_data_confirmation:
  assumes regular: "path_node w (data a) = Some (RegularFile ls)"
    and parsed: "snd (read_lines w ls) = Returned dat"
    and few: "length dat < 20"
  shows "(\<exists>pre. fst (load_training_data w (data a)) =
            pre @ [Print (MsgLowData (length dat)), Print MsgRecommendation, Input]) \<and>
         (\<forall>r. stdin_line w = Some r \<longrightarrow>
            snd (load_training_data w (data a)) =
              (if r = ''y'' \<or> r = ''Y'' then Returned dat else Exited 0)) \<and>
         (\<forall>r. stdin_line w = Some r \<and> r \<noteq> ''y'' \<and> r \<noteq> ''Y'' \<and>
              tokenizer_from_pretrained w base_model = None \<and>
              model_from_pretrained w base_model = None \<longrightarrow>
            snd (main w a) = Exited 0) \<and>
         (Train \<in> set (fst (main w a)) \<longrightarrow>
            stdin_line w = Some ''y'' \<or> stdin_line w = Some ''Y'')"
proof -
  have tr: "fst (load_training_data w (data a)) =
      (OpenFile (data a) # fst (read_lines w ls)) @
      [Print (MsgLowData (length dat)), Print MsgRecommendation, Input]"
    using parsed few
    by (simp add: load_regular [OF regular] fst_then_do fst_seq fst_low_data_gate
        snd_low_data_gate ret_def split: outcome.splits option.splits)
  have out: "snd (load_training_data w (data a)) =
      (case stdin_line w of
         None \<Rightarrow> Raised EOFError
       | Some r \<Rightarrow> if r = ''y'' \<or> r = ''Y'' then Returned dat else Exited 0)"
    using parsed few
    by (simp add: load_regular [OF regular] snd_then_do snd_seq snd_low_data_gate ret_def
        lower_y split: option.splits)
  have c1: "\<exists>pre. fst (load_training_data w (data a)) =
      pre @ [Print (MsgLowData (length dat)), Print MsgRecommendation, Input]"
    using tr by blast
  have c2: "\<forall>r. stdin_line w = Some r \<longrightarrow>
      snd (load_training_data w (data a)) =
        (if r = ''y'' \<or> r = ''Y'' then Returned dat else Exited 0)"
    using out by simp
  have c3: "\<forall>r. stdin_line w = Some r \<and> r \<noteq> ''y'' \<and> r \<noteq> ''Y'' \<and>
      tokenizer_from_pretrained w base_model = None \<and>
      model_from_pretrained w base_model = None \<longrightarrow> snd (main w a) = Exited 0"
    using out by (auto simp add: main_def run_simps snd_then_do)
  have c4: "Train \<in> set (fst (main w a)) \<longrightarrow>
      stdin_line w = Some ''y'' \<or> stdin_line w = Some ''Y''"
  proof (rule impI, rule ccontr)
    assume t: "Train \<in> set (fst (main w a))"
      and n: "\<not> (stdin_line w = Some ''y'' \<or> stdin_line w = Some ''Y'')"
    have "snd (load_training_data w (data a)) \<noteq> Returned d" for d
      using out n by (cases "stdin_line w") auto
    then have "Train \<notin> set (fst (main w a))" by (rule main_without_data)
    with t show False by simp
  qed
  show ?thesis using c1 c2 c3 c4 by blast
qed

lemma sample_read_lines:
  "snd (read_lines sample_world sample_file) = Returned [joke_record, plain_record]"
  by (simp add: run_simps ret_def sample_world_def sample_file_def strip_joke strip_plain
      strip_newline sample_loads_joke sample_loads_plain)

theorem low_data_confirmation_witness:
  "path_node (sample_world\<lparr>stdin_line := Some ''no''\<rparr>) (data sample_args)
     = Some (RegularFile sample_file) \<and>
   snd (read_lines (sample_world\<lparr>stdin_line := Some ''no''\<rparr>) sample_file)
     = Returned [joke_record, plain_record] \<and>
   length [joke_record, plain_record] < 20 \<and>
   snd (load_training_data (sample_world\<lparr>stdin_line := Some ''no''\<rparr>) (data sample_args))
     = Exited 0 \<and>
   snd (main (sample_world\<lparr>stdin_line := Some ''no''\<rparr>) sample_args) = Exited 0 \<and>
   snd (load_training_data sample_world (data sample_args))
     = Returned [joke_record, plain_record]"
proof -
  have f: "path_node (sample_world\<lparr>stdin_line := Some ''no''\<rparr>) (data sample_args)
      = Some (RegularFile sample_file)"
    by (simp add: sample_world_def sample_args_def)
  have p: "snd (read_lines (sample_world\<lparr>stdin_line := Some ''no''\<rparr>) sample_file)
      = Returned [joke_record, plain_record]"
    by (simp add: run_simps ret_def sample_world_def sample_file_def strip_joke strip_plain
        strip_newline sample_loads_joke sample_loads_plain)
  have t: "tokenizer_from_pretrained sample_world base_model = None"
    "model_from_pretrained sample_world base_model = None"
    by (simp_all add: sample_world_def)
  have f0: "path_node sample_world (data sample_args) = Some (RegularFile sample_file)"
    by (simp add: sample_world_def sample_args_def)
  have s0: "stdin_line sample_world = Some ''y''"
    by (simp add: sample_world_def)
  have l: "length [joke_record, plain_record] < 20" by simp
  show ?thesis
    using low_data_confirmation [OF f p l] low_data_confirmation [OF f0 sample_read_lines l]
    by (simp add: f0 p t s0)
qed

section \<open>The class counts\<close>

lemma count_positive_defined:
  "(\<exists>k. count_positive dat = Inr k) \<longleftrightarrow> (\<forall>d\<in>set dat. \<exists>v. getitem d ''label'' = Inr v)"
proof (induction dat)
  case Nil
  show ?case by simp
next
  case (Cons d ds)
  show ?case
  proof (cases "getitem d ''label''")
    case (Inl e)
    then show ?thesis by simp
  next
    case (Inr v)
    then show ?thesis using Cons.IH
      by (cases "count_positive ds") auto
  qed
qed

lemma count_positive_value:
  "count_positive dat = Inr k \<Longrightarrow>
   k = length (filter (\<lambda>d. \<exists>v. getitem d ''label'' = Inr v \<and> eq_one v) dat)"
proof (induction dat arbitrary: k)
  case Nil
  then show ?case by simp
next
  case (Cons d ds)
  then show ?case
    by (cases "getitem d ''label''"; cases "count_positive ds") (auto split: if_splits)
qed

lemma length_filter_full: "length (filter P xs) = length xs \<longleftrightarrow> (\<forall>x\<in>set xs. P x)"
proof (induction xs)
  case Nil
  show ?case by simp
next
  case (Cons x xs)
  have "length (filter P xs) \<le> length xs" by simp
  then have "length (filter P xs) \<noteq> Suc (length xs)" by arith
  then show ?case using Cons.IH by (cases "P x") simp_all
qed

lemma report_classes_run:
  "count_positive dat = Inr k \<Longrightarrow>
   report_classes dat =
     (if k = length dat
      then ([Print (MsgTotal (length dat)), Print (MsgPositive k), Print (MsgNegative 0)],
            Raised ZeroDivisionError)
      else ([Print (MsgTotal (length dat)), Print (MsgPositive k),
             Print (MsgNegative (int (length dat) - int k)),
             Print (MsgClassRatio (of_int (int k) / of_int (int (length dat) - int k)))],
            Returned ()))"
  by (auto simp add: report_classes_def truediv_def run_simps prints_def)

lemma main_with_data:
  assumes "tokenizer_from_pretrained w base_model = None"
    and "model_from_pretrained w base_model = None"
    and "snd (load_training_data w (data a)) = Returned dat"
  shows "main w a =
     ([Print MsgRule, Print MsgTitle, Print MsgRule, Print (MsgDevice (select_device w a))]
      @ (if gpu a \<and> \<not> cuda_is_available w then [Print MsgGpuUnavailable] else [])
      @ [Print (MsgLoadingBase base_model), TokenizerFromPretrained base_model,
         ModelFromPretrained base_model (Some 2), Print (MsgLoadingData (data a))]
      @ fst (load_training_data w (data a)) @ fst (process_data w a dat),
      snd (process_data w a dat))"
  using assms by (simp add: main_def run_simps then_do_def)

lemma getitem_error: "getitem d k = Inl e \<Longrightarrow> e \<noteq> ZeroDivisionError"
  by (cases d) (auto split: option.splits)

lemma count_positive_error: "count_positive dat = Inl e \<Longrightarrow> e \<noteq> ZeroDivisionError"
proof (induction dat)
  case Nil
  then show ?case by simp
next
  case (Cons d ds)
  then show ?case
    by (cases "getitem d ''label''"; cases "count_positive ds")
       (auto dest: getitem_error)
qed

lemma report_classes_zero_division:
  "snd (report_classes dat) = Raised ZeroDivisionError \<longleftrightarrow>
   (\<forall>d\<in>set dat. \<exists>v. getitem d ''label'' = Inr v \<and> eq_one v)"
proof (cases "count_positive dat")
  case (Inl e)
  then have "\<not> (\<forall>d\<in>set dat. \<exists>v. getitem d ''label'' = Inr v)"
    using count_positive_defined [of dat] by auto
  then have "\<not> (\<forall>d\<in>set dat. \<exists>v. getitem d ''label'' = Inr v \<and> eq_one v)" by blast
  moreover have "snd (report_classes dat) = Raised e"
    using Inl by (simp add: report_classes_def run_simps)
  ultimately show ?thesis using count_positive_error [OF Inl] by simp
next
  case (Inr k)
  have "k = length dat \<longleftrightarrow> (\<forall>d\<in>set dat. \<exists>v. getitem d ''label'' = Inr v \<and> eq_one v)"
    using count_positive_value [OF Inr] length_filter_full [of _ dat] by simp
  then show ?thesis by (simp add: report_classes_run [OF Inr])
qed

text \<open>
  Claim C9. When the base model has loaded and the loader has returned a dataset in which
  every example has a label equal to 1, the run raises a division by zero right after the
  line with the negative count, before any dataset preparation or training. For a dataset
  whose labels are all 0 or 1, the class report raises that error exactly when no example
  has label 0 and completes exactly when at least one has. For any dataset at all, the
  class report raises that error exactly when every example has a label equal to 1.
\<close>

theorem all_positive_divides_by_zero:
  assumes "tokenizer_from_pretrained w base_model = None"
    and "model_from_pretrained w base_model = None"
    and "snd (load_training_data w (data a)) = Returned dat"
  shows "((\<forall>d\<in>set dat. \<exists>v. getitem d ''label'' = Inr v \<and> eq_one v) \<longrightarrow>
            snd (main w a) = Raised ZeroDivisionError \<and>
            Print MsgPreparing \<notin> set (fst (main w a)) \<and>
            Train \<notin> set (fst (main w a)) \<and>
            (\<exists>pre. fst (main w a) =
               pre @ [Print (MsgTotal (length dat)), Print (MsgPositive (length dat)),
                      Print (MsgNegative 0)])) \<and>
         ((\<forall>d\<in>set dat. getitem d ''label'' = Inr (JInt 0) \<or> getitem d ''label'' = Inr (JInt 1)) \<longrightarrow>
            (snd (report_classes dat) = Raised ZeroDivisionError \<longleftrightarrow>
               \<not> (\<exists>d\<in>set dat. getitem d ''label'' = Inr (JInt 0))) \<and>
            (snd (report_classes dat) = Returned () \<longleftrightarrow>
               (\<exists>d\<in>set dat. getitem d ''label'' = Inr (JInt 0)))) \<and>
         (snd (report_classes dat) = Raised ZeroDivisionError \<longleftrightarrow>
            (\<forall>d\<in>set dat. \<exists>v. getitem d ''label'' = Inr v \<and> eq_one v))"
proof (intro conjI impI)
  assume ones: "\<forall>d\<in>set dat. \<exists>v. getitem d ''label'' = Inr v \<and> eq_one v"
  then have "\<forall>d\<in>set dat. \<exists>v. getitem d ''label'' = Inr v" by blast
  then obtain k where k: "count_positive dat = Inr k"
    using count_positive_defined [of dat] by blast
  have "k = length dat"
    using count_positive_value [OF k] ones length_filter_full [of _ dat] by simp
  with k have rc: "report_classes dat =
      ([Print (MsgTotal (length dat)), Print (MsgPositive (length dat)), Print (MsgNegative 0)],
       Raised ZeroDivisionError)"
    by (simp add: report_classes_run)
  have pd: "process_data w a dat =
      ([Print (MsgTotal (length dat)), Print (MsgPositive (length dat)), Print (MsgNegative 0)],
       Raised ZeroDivisionError)"
    by (simp add: process_data_def rc run_simps)
  note m = main_with_data [OF assms]
  show "snd (main w a) = Raised ZeroDivisionError" by (simp add: m pd)
  have le: "e \<in> set (fst (load_training_data w (data a))) \<Longrightarrow>
      e \<noteq> Print MsgPreparing \<and> e \<noteq> Train" for e
    using load_events [of e w "data a"] by auto
  show "Print MsgPreparing \<notin> set (fst (main w a))"
    using le by (auto simp add: m pd)
  show "Train \<notin> set (fst (main w a))"
    using le by (auto simp add: m pd)
  show "\<exists>pre. fst (main w a) =
      pre @ [Print (MsgTotal (length dat)), Print (MsgPositive (length dat)),
             Print (MsgNegative 0)]"
    by (simp add: m pd)
next
  assume bin: "\<forall>d\<in>set dat. getitem d ''label'' = Inr (JInt 0) \<or> getitem d ''label'' = Inr (JInt 1)"
  then have "\<forall>d\<in>set dat. \<exists>v. getitem d ''label'' = Inr v" by blast
  then obtain k where k: "count_positive dat = Inr k"
    using count_positive_defined [of dat] by blast
  have "k = length dat \<longleftrightarrow> (\<forall>d\<in>set dat. \<exists>v. getitem d ''label'' = Inr v \<and> eq_one v)"
    using count_positive_value [OF k] length_filter_full [of _ dat] by simp
  also have "\<dots> \<longleftrightarrow> \<not> (\<exists>d\<in>set dat. getitem d ''label'' = Inr (JInt 0))"
    using bin by fastforce
  finally have full: "k = length dat \<longleftrightarrow> \<not> (\<exists>d\<in>set dat. getitem d ''label'' = Inr (JInt 0))" .
  show "snd (report_classes dat) = Raised ZeroDivisionError \<longleftrightarrow>
      \<not> (\<exists>d\<in>set dat. getitem d ''label'' = Inr (JInt 0))"
    using full by (simp add: report_classes_run [OF k])
  show "snd (report_classes dat) = Returned () \<longleftrightarrow>
      (\<exists>d\<in>set dat. getitem d ''label'' = Inr (JInt 0))"
    using full by (simp add: report_classes_run [OF k])
next
  show "snd (report_classes dat) = Raised ZeroDivisionError \<longleftrightarrow>
      (\<forall>d\<in>set dat. \<exists>v. getitem d ''label'' = Inr v \<and> eq_one v)"
    by (rule report_classes_zero_division)
qed

theorem all_positive_divides_by_zero_witness:
  "tokenizer_from_pretrained
     (sample_world\<lparr>path_node := (\<lambda>_. Some (RegularFile [joke_line]))\<rparr>) base_model = None \<and>
   model_from_pretrained
     (sample_world\<lparr>path_node := (\<lambda>_. Some (RegularFile [joke_line]))\<rparr>) base_model = None \<and>
   snd (load_training_data
     (sample_world\<lparr>path_node := (\<lambda>_. Some (RegularFile [joke_line]))\<rparr>) (data sample_args))
     = Returned [joke_record] \<and>
   getitem joke_record ''label'' = Inr (JInt 1) \<and> eq_one (JInt 1) \<and>
   snd (main (sample_world\<lparr>path_node := (\<lambda>_. Some (RegularFile [joke_line]))\<rparr>) sample_args)
     = Raised ZeroDivisionError \<and>
   snd (load_training_data sample_world (data sample_args))
     = Returned [joke_record, plain_record] \<and>
   getitem plain_record ''label'' = Inr (JInt 0) \<and>
   snd (report_classes [joke_record, plain_record]) = Returned ()"
proof -
  let ?w = "sample_world\<lparr>path_node := (\<lambda>_. Some (RegularFile [joke_line]))\<rparr>"
  have t: "tokenizer_from_pretrained ?w base_model = None"
    and m: "model_from_pretrained ?w base_model = None"
    by (simp_all add: sample_world_def)
  have f: "path_node ?w (data sample_args) = Some (RegularFile [joke_line])" by simp
  have s: "stdin_line ?w = Some ''y''" "json_loads ?w = sample_loads"
    by (simp_all add: sample_world_def)
  have l: "snd (load_training_data ?w (data sample_args)) = Returned [joke_record]"
    by (simp add: snd_load_training_data [OF f] snd_low_data_gate run_simps ret_def s
        strip_joke sample_loads_joke lower_y)
  have f0: "path_node sample_world (data sample_args) = Some (RegularFile sample_file)"
    by (simp add: sample_world_def sample_args_def)
  have t0: "tokenizer_from_pretrained sample_world base_model = None"
    and m0: "model_from_pretrained sample_world base_model = None"
    and s0: "stdin_line sample_world = Some ''y''"
    by (simp_all add: sample_world_def)
  have l0: "snd (load_training_data sample_world (data sample_args))
      = Returned [joke_record, plain_record]"
    using sample_read_lines s0
    by (simp add: snd_load_training_data [OF f0] snd_low_data_gate lower_y)
  have g: "getitem joke_record ''label'' = Inr (JInt 1)"
    "getitem plain_record ''label'' = Inr (JInt 0)"
    by (simp_all add: joke_record_def plain_record_def)
  show ?thesis
    using all_positive_divides_by_zero [OF t m l] all_positive_divides_by_zero [OF t0 m0 l0]
    by (simp add: t0 m0 l l0 g)
qed

section \<open>What is checked of a record\<close>








section \<open>The train and validation split\<close>







section \<open>The converter's error boundary\<close>

lemma try_except_Raised:
  "snd body = Raised e \<Longrightarrow>
   try_except body = (fst body @ [ConvPrint (MsgConversionError e), PrintTraceback e], Exited 1)"
  by (simp add: try_except_def)

lemma try_except_never_raises: "snd (try_except body) \<noteq> Raised e"
  by (cases "snd body") (simp_all add: try_except_def)

lemma try_except_other: "\<forall>e. snd body \<noteq> Raised e \<Longrightarrow> try_except body = body"
  by (cases "snd body") (simp_all add: try_except_def)

lemma convert_model_run:
  "conv_imports w = None \<Longrightarrow> mkdir w OUTPUT_DIR = None \<Longrightarrow>
   convert_model w =
     ([ConvPrint MsgImportsOk, ConvPrint (MsgConverting MODEL_NAME),
       ConvPrint (MsgOutputDirectory OUTPUT_DIR), Mkdir OUTPUT_DIR]
      @ fst (try_except (pipeline w)), snd (try_except (pipeline w)))"
  by (simp add: convert_model_def run_simps)

text \<open>
  Claim C6. In the converter, an exception that any step of the pipeline (load, export,
  save, smoke test) raises is caught at the top level: the run goes on to print the error
  message and the stack trace and exits with status 1. No exception of the pipeline ever
  escapes the converter.
\<close>

theorem pipeline_exception_is_caught:
  assumes "conv_imports w = None" and "mkdir w OUTPUT_DIR = None"
  shows "(\<forall>e. snd (pipeline w) = Raised e \<longrightarrow>
            snd (convert_model w) = Exited 1 \<and>
            exit_status (snd (convert_model w)) \<noteq> 0 \<and>
            (\<exists>pre. fst (convert_model w) =
               pre @ fst (pipeline w) @ [ConvPrint (MsgConversionError e), PrintTraceback e])) \<and>
         (\<forall>e. snd (convert_model w) \<noteq> Raised e) \<and>
         (\<forall>e. conv_tokenizer_from_pretrained w MODEL_NAME = Some e \<longrightarrow>
            snd (pipeline w) = Raised e) \<and>
         (\<forall>e. conv_tokenizer_from_pretrained w MODEL_NAME = None \<and>
              conv_model_from_pretrained w MODEL_NAME = Inl e \<longrightarrow>
            snd (pipeline w) = Raised e) \<and>
         (\<forall>e m. conv_tokenizer_from_pretrained w MODEL_NAME = None \<and>
              conv_model_from_pretrained w MODEL_NAME = Inr m \<and>
              ort_from_pretrained w MODEL_NAME = Some e \<longrightarrow>
            snd (pipeline w) = Raised e) \<and>
         (\<forall>e m. conv_tokenizer_from_pretrained w MODEL_NAME = None \<and>
              conv_model_from_pretrained w MODEL_NAME = Inr m \<and>
              ort_from_pretrained w MODEL_NAME = None \<and>
              ort_save_pretrained w OUTPUT_DIR = Some e \<longrightarrow>
            snd (pipeline w) = Raised e) \<and>
         (\<forall>e m. conv_tokenizer_from_pretrained w MODEL_NAME = None \<and>
              conv_model_from_pretrained w MODEL_NAME = Inr m \<and>
              ort_from_pretrained w MODEL_NAME = None \<and>
              ort_save_pretrained w OUTPUT_DIR = None \<and>
              tokenizer_save_pretrained w OUTPUT_DIR = Some e \<longrightarrow>
            snd (pipeline w) = Raised e) \<and>
         (\<forall>e m. conv_tokenizer_from_pretrained w MODEL_NAME = None \<and>
              conv_model_from_pretrained w MODEL_NAME = Inr m \<and>
              ort_from_pretrained w MODEL_NAME = None \<and>
              ort_save_pretrained w OUTPUT_DIR = None \<and>
              tokenizer_save_pretrained w OUTPUT_DIR = None \<and>
              snd (test_loop w m test_texts) = Raised e \<longrightarrow>
            snd (pipeline w) = Raised e)"
proof -
  have caught: "\<forall>e. snd (pipeline w) = Raised e \<longrightarrow>
      snd (convert_model w) = Exited 1 \<and>
      exit_status (snd (convert_model w)) \<noteq> 0 \<and>
      (\<exists>pre. fst (convert_model w) =
         pre @ fst (pipeline w) @ [ConvPrint (MsgConversionError e), PrintTraceback e])"
    by (simp add: convert_model_run [OF assms] try_except_Raised)
  have none: "\<forall>e. snd (convert_model w) \<noteq> Raised e"
    by (simp add: convert_model_run [OF assms] try_except_never_raises)
  have steps: "conv_tokenizer_from_pretrained w MODEL_NAME = Some e \<Longrightarrow>
      snd (pipeline w) = Raised e"
    "conv_tokenizer_from_pretrained w MODEL_NAME = None \<Longrightarrow>
      conv_model_from_pretrained w MODEL_NAME = Inl e \<Longrightarrow> snd (pipeline w) = Raised e"
    "conv_tokenizer_from_pretrained w MODEL_NAME = None \<Longrightarrow>
      conv_model_from_pretrained w MODEL_NAME = Inr m \<Longrightarrow>
      ort_from_pretrained w MODEL_NAME = Some e \<Longrightarrow> snd (pipeline w) = Raised e"
    "conv_tokenizer_from_pretrained w MODEL_NAME = None \<Longrightarrow>
      conv_model_from_pretrained w MODEL_NAME = Inr m \<Longrightarrow>
      ort_from_pretrained w MODEL_NAME = None \<Longrightarrow>
      ort_save_pretrained w OUTPUT_DIR = Some e \<Longrightarrow> snd (pipeline w) = Raised e"
    "conv_tokenizer_from_pretrained w MODEL_NAME = None \<Longrightarrow>
      conv_model_from_pretrained w MODEL_NAME = Inr m \<Longrightarrow>
      ort_from_pretrained w MODEL_NAME = None \<Longrightarrow>
      ort_save_pretrained w OUTPUT_DIR = None \<Longrightarrow>
      tokenizer_save_pretrained w OUTPUT_DIR = Some e \<Longrightarrow> snd (pipeline w) = Raised e"
    "conv_tokenizer_from_pretrained w MODEL_NAME = None \<Longrightarrow>
      conv_model_from_pretrained w MODEL_NAME = Inr m \<Longrightarrow>
      ort_from_pretrained w MODEL_NAME = None \<Longrightarrow>
      ort_save_pretrained w OUTPUT_DIR = None \<Longrightarrow>
      tokenizer_save_pretrained w OUTPUT_DIR = None \<Longrightarrow>
      snd (test_loop w m test_texts) = Raised e \<Longrightarrow> snd (pipeline w) = Raised e"
    for e m
    by (simp_all add: pipeline_def run_simps snd_seq)
  show ?thesis using caught none steps by blast
qed

theorem pipeline_exception_is_caught_witness:
  "conv_imports (sample_conv_world\<lparr>ort_from_pretrained := (\<lambda>_. Some (RuntimeError ''export''))\<rparr>)
     = None \<and>
   mkdir (sample_conv_world\<lparr>ort_from_pretrained := (\<lambda>_. Some (RuntimeError ''export''))\<rparr>)
     OUTPUT_DIR = None \<and>
   snd (pipeline
     (sample_conv_world\<lparr>ort_from_pretrained := (\<lambda>_. Some (RuntimeError ''export''))\<rparr>))
     = Raised (RuntimeError ''export'') \<and>
   snd (convert_model
     (sample_conv_world\<lparr>ort_from_pretrained := (\<lambda>_. Some (RuntimeError ''export''))\<rparr>))
     = Exited 1"
proof -
  let ?w = "sample_conv_world\<lparr>ort_from_pretrained := (\<lambda>_. Some (RuntimeError ''export''))\<rparr>"
  have i: "conv_imports ?w = None" and d: "mkdir ?w OUTPUT_DIR = None"
    by (simp_all add: sample_conv_world_def)
  have p: "snd (pipeline ?w) = Raised (RuntimeError ''export'')"
    by (simp add: pipeline_def run_simps sample_conv_world_def)
  show ?thesis
    using pipeline_exception_is_caught [OF i d] p
    by (simp add: sample_conv_world_def)
qed

section \<open>The smoke test\<close>

lemma first_max_less: "xs \<noteq> [] \<Longrightarrow> first_max xs < length xs"
  by (induction xs rule: first_max.induct) (simp_all add: Let_def)

lemma member_le_sum_list_real:
  fixes ys :: "real list"
  shows "x \<in> set ys \<Longrightarrow> \<forall>y\<in>set ys. 0 \<le> y \<Longrightarrow> x \<le> sum_list ys"
proof (induction ys)
  case Nil
  then show ?case by simp
next
  case (Cons y ys)
  have nn: "0 \<le> sum_list ys" using Cons.prems(2) by (simp add: sum_list_nonneg)
  show ?case
  proof (cases "x = y")
    case True
    then show ?thesis using nn by simp
  next
    case False
    then have "x \<le> sum_list ys" using Cons by simp
    moreover have "0 \<le> y" using Cons.prems(2) by simp
    ultimately show ?thesis by simp
  qed
qed

lemma softmax_bounds:
  assumes "k < length xs"
  shows "0 \<le> softmax xs ! k \<and> softmax xs ! k \<le> 1"
proof -
  have pos: "\<forall>y\<in>set (map exp xs). (0::real) \<le> y" by auto
  have mem: "exp (xs ! k) \<in> set (map exp xs)" using assms by simp
  have le: "exp (xs ! k) \<le> sum_list (map exp xs)"
    by (rule member_le_sum_list_real [OF mem pos])
  have gt: "0 < sum_list (map exp xs)"
    using le exp_gt_zero [of "xs ! k"] by linarith
  have "softmax xs ! k = exp (xs ! k) / sum_list (map exp xs)"
    using assms by (simp add: softmax_def)
  then show ?thesis using le gt by simp
qed

lemma argmax_bounds:
  "argmax logits = Inr k \<Longrightarrow> 0 \<le> softmax logits ! k \<and> softmax logits ! k \<le> 1"
  by (rule softmax_bounds) (auto simp add: argmax_def first_max_less split: if_splits)

lemma predictions_of_Nil: "predictions_of [] = []"
  by (simp add: predictions_of_def)

lemma predictions_of_Cons: "predictions_of (e # es) = prediction_of e @ predictions_of es"
  by (simp add: predictions_of_def)

lemma predictions_of_append:
  "predictions_of (es @ fs) = predictions_of es @ predictions_of fs"
  by (simp add: predictions_of_def)

lemmas predictions_simps =
  predictions_of_Nil predictions_of_Cons predictions_of_append prediction_of_def

lemma test_one_cases:
  "(\<exists>e. snd (test_one w m text) = Raised e \<and> predictions_of (fst (test_one w m text)) = []) \<or>
   (\<exists>inputs logits k l.
      tokenizer_text w text = Inr inputs \<and> onnx_model w inputs = Inr logits \<and>
      argmax logits = Inr k \<and> m k = Some l \<and>
      snd (test_one w m text) = Returned () \<and>
      predictions_of (fst (test_one w m text)) = [(l, softmax logits ! k)])"
proof (cases "tokenizer_text w text")
  case (Inl e)
  then show ?thesis by (simp add: test_one_def run_simps predictions_simps)
next
  case i: (Inr inputs)
  show ?thesis
  proof (cases "onnx_model w inputs")
    case (Inl e)
    then show ?thesis using i by (simp add: test_one_def run_simps predictions_simps)
  next
    case l: (Inr logits)
    show ?thesis
    proof (cases "argmax logits")
      case (Inl e)
      then show ?thesis using i l by (simp add: test_one_def run_simps predictions_simps)
    next
      case k: (Inr k)
      show ?thesis
      proof (cases "m k")
        case None
        then show ?thesis using i l k
          by (simp add: test_one_def run_simps predictions_simps id2label_lookup_def)
      next
        case (Some lab)
        then show ?thesis using i l k
          by (simp add: test_one_def run_simps predictions_simps id2label_lookup_def
              conv_prints_def)
      qed
    qed
  qed
qed

lemma test_loop_predictions:
  "length (predictions_of (fst (test_loop w m texts))) \<le> length texts \<and>
   (\<forall>lc\<in>set (predictions_of (fst (test_loop w m texts))). 0 \<le> snd lc \<and> snd lc \<le> 1) \<and>
   (\<forall>n. snd (test_loop w m texts) \<noteq> Exited n) \<and>
   (snd (test_loop w m texts) = Returned () \<longrightarrow>
      list_all2 (\<lambda>text lc. \<exists>inputs logits k.
          tokenizer_text w text = Inr inputs \<and> onnx_model w inputs = Inr logits \<and>
          argmax logits = Inr k \<and> m k = Some (fst lc) \<and> snd lc = softmax logits ! k)
        texts (predictions_of (fst (test_loop w m texts))))"
proof (induction texts)
  case Nil
  show ?case by (simp add: ret_def predictions_simps)
next
  case (Cons sentence rest)
  from test_one_cases [of w m sentence] show ?case
  proof (elim disjE exE conjE)
    fix e
    assume "snd (test_one w m sentence) = Raised e"
      and "predictions_of (fst (test_one w m sentence)) = []"
    then show ?thesis by (simp add: fst_seq snd_seq)
  next
    fix inputs logits k l
    assume a: "tokenizer_text w sentence = Inr inputs" "onnx_model w inputs = Inr logits"
      "argmax logits = Inr k" "m k = Some l" "snd (test_one w m sentence) = Returned ()"
      "predictions_of (fst (test_one w m sentence)) = [(l, softmax logits ! k)]"
    have b: "0 \<le> softmax logits ! k \<and> softmax logits ! k \<le> 1"
      using a(3) by (rule argmax_bounds)
    show ?thesis using a b Cons.IH
      by (simp add: fst_seq snd_seq predictions_of_append split: outcome.splits)
  qed
qed

lemma test_loop_returns:
  "(\<forall>text\<in>set texts. \<exists>inputs logits k l.
      tokenizer_text w text = Inr inputs \<and> onnx_model w inputs = Inr logits \<and>
      argmax logits = Inr k \<and> m k = Some l) \<Longrightarrow>
   snd (test_loop w m texts) = Returned ()"
proof (induction texts)
  case Nil
  show ?case by (simp add: ret_def)
next
  case (Cons sentence rest)
  from Cons.prems obtain inputs logits k l where
    a: "tokenizer_text w sentence = Inr inputs" "onnx_model w inputs = Inr logits"
      "argmax logits = Inr k" "m k = Some l" by auto
  have "snd (test_one w m sentence) = Returned ()"
    using a by (simp add: test_one_def run_simps id2label_lookup_def conv_prints_def)
  then show ?case using Cons by (simp add: snd_seq)
qed

lemma pipeline_cases:
  "(\<exists>e. snd (pipeline w) = Raised e \<and> predictions_of (fst (pipeline w)) = []) \<or>
   (\<exists>m. conv_tokenizer_from_pretrained w MODEL_NAME = None \<and>
        conv_model_from_pretrained w MODEL_NAME = Inr m \<and>
        ort_from_pretrained w MODEL_NAME = None \<and>
        ort_save_pretrained w OUTPUT_DIR = None \<and>
        tokenizer_save_pretrained w OUTPUT_DIR = None \<and>
        predictions_of (fst (pipeline w)) = predictions_of (fst (test_loop w m test_texts)) \<and>
        snd (pipeline w) = snd (test_loop w m test_texts))"
proof (cases "conv_tokenizer_from_pretrained w MODEL_NAME")
  case (Some e)
  then show ?thesis by (simp add: pipeline_def run_simps predictions_simps)
next
  case t: None
  show ?thesis
  proof (cases "conv_model_from_pretrained w MODEL_NAME")
    case (Inl e)
    then show ?thesis using t by (simp add: pipeline_def run_simps predictions_simps)
  next
    case m: (Inr m)
    show ?thesis
    proof (cases "ort_from_pretrained w MODEL_NAME")
      case (Some e)
      then show ?thesis using t m by (simp add: pipeline_def run_simps predictions_simps)
    next
      case o: None
      show ?thesis
      proof (cases "ort_save_pretrained w OUTPUT_DIR")
        case (Some e)
        then show ?thesis using t m o
          by (simp add: pipeline_def run_simps predictions_simps)
      next
        case s1: None
        show ?thesis
        proof (cases "tokenizer_save_pretrained w OUTPUT_DIR")
          case (Some e)
          then show ?thesis using t m o s1
            by (simp add: pipeline_def run_simps predictions_simps)
        next
          case s2: None
          show ?thesis using t m o s1 s2
            by (cases "snd (test_loop w m test_texts)")
               (simp_all add: pipeline_def run_simps ret_def fst_seq snd_seq predictions_simps)
        qed
      qed
    qed
  qed
qed

lemma convert_model_cases:
  "(predictions_of (fst (convert_model w)) = [] \<and> snd (convert_model w) \<noteq> Returned ()) \<or>
   (\<exists>m. conv_imports w = None \<and> mkdir w OUTPUT_DIR = None \<and>
        conv_tokenizer_from_pretrained w MODEL_NAME = None \<and>
        conv_model_from_pretrained w MODEL_NAME = Inr m \<and>
        ort_from_pretrained w MODEL_NAME = None \<and>
        ort_save_pretrained w OUTPUT_DIR = None \<and>
        tokenizer_save_pretrained w OUTPUT_DIR = None \<and>
        predictions_of (fst (convert_model w)) = predictions_of (fst (test_loop w m test_texts)) \<and>
        (snd (convert_model w) = Returned () \<longleftrightarrow> snd (test_loop w m test_texts) = Returned ()))"
proof (cases "conv_imports w")
  case (Some e)
  then show ?thesis by (simp add: convert_model_def run_simps predictions_simps)
next
  case i: None
  show ?thesis
  proof (cases "mkdir w OUTPUT_DIR")
    case (Some e)
    then show ?thesis using i by (simp add: convert_model_def run_simps predictions_simps)
  next
    case d: None
    note run = convert_model_run [OF i d]
    from pipeline_cases [of w] show ?thesis
    proof (elim disjE exE conjE)
      fix e
      assume "snd (pipeline w) = Raised e" "predictions_of (fst (pipeline w)) = []"
      then show ?thesis
        by (simp add: run try_except_Raised predictions_simps)
    next
      fix m
      assume a: "conv_tokenizer_from_pretrained w MODEL_NAME = None"
        "conv_model_from_pretrained w MODEL_NAME = Inr m"
        "ort_from_pretrained w MODEL_NAME = None"
        "ort_save_pretrained w OUTPUT_DIR = None"
        "tokenizer_save_pretrained w OUTPUT_DIR = None"
        "predictions_of (fst (pipeline w)) = predictions_of (fst (test_loop w m test_texts))"
        "snd (pipeline w) = snd (test_loop w m test_texts)"
      show ?thesis
      proof (cases "snd (test_loop w m test_texts)")
        case (Returned u)
        then have "try_except (pipeline w) = pipeline w"
          using a(7) by (simp add: try_except_def)
        then show ?thesis using a i d Returned
          by (simp add: run predictions_simps)
      next
        case (Exited n)
        then show ?thesis using test_loop_predictions [of w m test_texts] by simp
      next
        case (Raised e)
        then have "snd (pipeline w) = Raised e" using a(7) by simp
        then show ?thesis using a i d Raised
          by (simp add: run try_except_Raised predictions_simps)
      qed
    qed
  qed
qed

text \<open>
  Claim C5. The converter's smoke test has exactly three fixed sentences. In every run the
  converter prints at most three predictions, each with a confidence between 0 and 1. A run
  that completes printed exactly one prediction for each of the three sentences, in order:
  the label the model's table gives for the argmax class of the sentence's scores, and the
  softmax probability of that class. A run completes whenever every library call succeeds
  and the table has a label for each argmax class.
\<close>

theorem smoke_test_predictions:
  "length test_texts = 3 \<and>
   length (predictions_of (fst (convert_model w))) \<le> 3 \<and>
   (\<forall>lc\<in>set (predictions_of (fst (convert_model w))). 0 \<le> snd lc \<and> snd lc \<le> 1) \<and>
   (snd (convert_model w) = Returned () \<longrightarrow>
      (\<exists>m. conv_model_from_pretrained w MODEL_NAME = Inr m \<and>
         list_all2 (\<lambda>text lc. \<exists>inputs logits k.
             tokenizer_text w text = Inr inputs \<and> onnx_model w inputs = Inr logits \<and>
             argmax logits = Inr k \<and> m k = Some (fst lc) \<and> snd lc = softmax logits ! k)
           test_texts (predictions_of (fst (convert_model w))))) \<and>
   (conv_imports w = None \<and> mkdir w OUTPUT_DIR = None \<and>
    conv_tokenizer_from_pretrained w MODEL_NAME = None \<and>
    conv_model_from_pretrained w MODEL_NAME = Inr id2label \<and>
    ort_from_pretrained w MODEL_NAME = None \<and>
    ort_save_pretrained w OUTPUT_DIR = None \<and>
    tokenizer_save_pretrained w OUTPUT_DIR = None \<and>
    (\<forall>text\<in>set test_texts. \<exists>inputs logits k l.
       tokenizer_text w text = Inr inputs \<and> onnx_model w inputs = Inr logits \<and>
       argmax logits = Inr k \<and> id2label k = Some l) \<longrightarrow>
    snd (convert_model w) = Returned ())"
proof (intro conjI impI)
  show three: "length test_texts = 3" by (simp add: test_texts_def)
  from convert_model_cases [of w]
  show "length (predictions_of (fst (convert_model w))) \<le> 3"
    using test_loop_predictions [of w _ test_texts] three by (elim disjE exE conjE) simp_all
  from convert_model_cases [of w]
  show "\<forall>lc\<in>set (predictions_of (fst (convert_model w))). 0 \<le> snd lc \<and> snd lc \<le> 1"
    using test_loop_predictions [of w _ test_texts] by (elim disjE exE conjE) simp_all
next
  assume r: "snd (convert_model w) = Returned ()"
  from convert_model_cases [of w] r obtain m where
    m: "conv_model_from_pretrained w MODEL_NAME = Inr m"
      "predictions_of (fst (convert_model w)) = predictions_of (fst (test_loop w m test_texts))"
      "snd (test_loop w m test_texts) = Returned ()"
    by auto
  show "\<exists>m. conv_model_from_pretrained w MODEL_NAME = Inr m \<and>
      list_all2 (\<lambda>text lc. \<exists>inputs logits k.
          tokenizer_text w text = Inr inputs \<and> onnx_model w inputs = Inr logits \<and>
          argmax logits = Inr k \<and> m k = Some (fst lc) \<and> snd lc = softmax logits ! k)
        test_texts (predictions_of (fst (convert_model w)))"
    using m test_loop_predictions [of w m test_texts] by auto
next
  assume a: "conv_imports w = None \<and> mkdir w OUTPUT_DIR = None \<and>
    conv_tokenizer_from_pretrained w MODEL_NAME = None \<and>
    conv_model_from_pretrained w MODEL_NAME = Inr id2label \<and>
    ort_from_pretrained w MODEL_NAME = None \<and>
    ort_save_pretrained w OUTPUT_DIR = None \<and>
    tokenizer_save_pretrained w OUTPUT_DIR = None \<and>
    (\<forall>text\<in>set test_texts. \<exists>inputs logits k l.
       tokenizer_text w text = Inr inputs \<and> onnx_model w inputs = Inr logits \<and>
       argmax logits = Inr k \<and> id2label k = Some l)"
  then have "snd (test_loop w id2label test_texts) = Returned ()"
    by (intro test_loop_returns) blast
  then have p: "snd (pipeline w) = Returned ()"
    using a by (simp add: pipeline_def run_simps ret_def snd_seq)
  then have "try_except (pipeline w) = pipeline w"
    by (simp add: try_except_def)
  then show "snd (convert_model w) = Returned ()"
    using a p by (simp add: convert_model_run)
qed

theorem smoke_test_predictions_witness:
  "conv_model_from_pretrained sample_conv_world MODEL_NAME
     = Inr [0 \<mapsto> ''NO_HUMOR'', 1 \<mapsto> ''HUMOR''] \<and>
   argmax [0, 1 :: real] = Inr 1 \<and>
   snd (convert_model sample_conv_world) = Returned () \<and>
   length (predictions_of (fst (convert_model sample_conv_world))) = 3"
proof -
  have am: "argmax [0, 1 :: real] = Inr 1" by (simp add: argmax_def)
  have s: "conv_imports sample_conv_world = None" "mkdir sample_conv_world OUTPUT_DIR = None"
    "conv_tokenizer_from_pretrained sample_conv_world MODEL_NAME = None"
    "conv_model_from_pretrained sample_conv_world MODEL_NAME =
       Inr [0 \<mapsto> ''NO_HUMOR'', 1 \<mapsto> ''HUMOR'']"
    "ort_from_pretrained sample_conv_world MODEL_NAME = None"
    "ort_save_pretrained sample_conv_world OUTPUT_DIR = None"
    "tokenizer_save_pretrained sample_conv_world OUTPUT_DIR = None"
    "tokenizer_text sample_conv_world t = Inr (map of_char t)"
    "onnx_model sample_conv_world ids = Inr [0, 1]" for t ids
    by (simp_all add: sample_conv_world_def)
  note th = smoke_test_predictions
    [where w = sample_conv_world and id2label = "[0 \<mapsto> ''NO_HUMOR'', 1 \<mapsto> ''HUMOR'']"]
  have r: "snd (convert_model sample_conv_world) = Returned ()"
    using th by (simp add: s am)
  with th obtain m where
    "list_all2 (\<lambda>text lc. \<exists>inputs logits k.
        tokenizer_text sample_conv_world text = Inr inputs \<and>
        onnx_model sample_conv_world inputs = Inr logits \<and>
        argmax logits = Inr k \<and> m k = Some (fst lc) \<and> snd lc = softmax logits ! k)
      test_texts (predictions_of (fst (convert_model sample_conv_world)))"
    by blast
  then have "length (predictions_of (fst (convert_model sample_conv_world))) = length test_texts"
    by (simp add: list_all2_lengthD)
  then show ?thesis using th r am s(4) by simp
qed

end
